theory Spec2Isabelle
  imports Complex_Main
begin

section \<open>The Smooth module of CellProfiler: \<open>Smooth.run\<close>\<close>

text \<open>
  The development embeds \<open>Smooth.run\<close> of \<open>cellprofiler/modules/smooth.py\<close> (lines 137-170).
  The module is Python 2 code of 2010 (CellProfiler 2, with its \<open>cellprofiler.cpmodule\<close>,
  \<open>cpimage\<close> and \<open>cpmath\<close> packages) and has no \<open>from __future__ import division\<close>, so
  \<open>/\<close> between two ints is floor division; the builtins \<open>min\<close> and \<open>max\<close> return one of
  their arguments as it is, int or float. Numbers therefore carry their Python type.
  Floats are idealised as reals.
\<close>

subsection \<open>Python numbers\<close>

datatype pynum = PyInt int | PyFloat real

fun to_real :: "pynum \<Rightarrow> real" where
  "to_real (PyInt n) = real_of_int n"
| "to_real (PyFloat x) = x"

datatype error =
    ValueError string
  | ZeroDivisionError
  | Raised string  \<comment> \<open>any exception of a function that is called but not defined in this file\<close>

definition bind_result :: "error + 'a \<Rightarrow> ('a \<Rightarrow> error + 'b) \<Rightarrow> error + 'b" where
  "bind_result r f = (case r of Inl e \<Rightarrow> Inl e | Inr x \<Rightarrow> f x)"

text \<open>\<open>max(a, b)\<close> keeps \<open>a\<close> unless \<open>b > a\<close>; \<open>min(a, b)\<close> keeps \<open>a\<close> unless \<open>b < a\<close>.\<close>

definition py_max :: "pynum \<Rightarrow> pynum \<Rightarrow> pynum" where
  "py_max a b = (if to_real b > to_real a then b else a)"

definition py_min :: "pynum \<Rightarrow> pynum \<Rightarrow> pynum" where
  "py_min a b = (if to_real b < to_real a then b else a)"

text \<open>
  Python 2 \<open>a / b\<close>: floor division on two ints, float division otherwise. The
  divisors at the call sites are the literals \<open>40\<close>, \<open>2.35\<close> and \<open>2\<close>, so the zero
  case is never reached.
\<close>

fun py_div :: "pynum \<Rightarrow> pynum \<Rightarrow> error + pynum" where
  "py_div (PyInt a) (PyInt b) =
     (if b = 0 then Inl ZeroDivisionError else Inr (PyInt (a div b)))"
| "py_div a b =
     (if to_real b = 0 then Inl ZeroDivisionError else Inr (PyFloat (to_real a / to_real b)))"

fun py_add :: "pynum \<Rightarrow> pynum \<Rightarrow> pynum" where
  "py_add (PyInt a) (PyInt b) = PyInt (a + b)"
| "py_add a b = PyFloat (to_real a + to_real b)"

text \<open>\<open>float(x)\<close> on the value of a \<open>cps.Float\<close> setting.\<close>

definition py_float :: "real \<Rightarrow> pynum" where
  "py_float x = PyFloat x"

subsection \<open>Arrays, images, the module's settings and the workspace\<close>

text \<open>
  A two-dimensional numpy array: its \<open>shape\<close> \<open>(H, W)\<close> and its elements in row-major
  order. \<open>get_image\<close> is called with \<open>must_be_grayscale=True\<close>, so the pixel data is
  two-dimensional.
\<close>

record 'a ndarray =
  shape :: "nat \<times> nat"
  flat :: "'a list"

type_synonym pixels = "real ndarray"
type_synonym mask = "bool ndarray"

text \<open>\<open>np.mean(pixel_data.shape)\<close>, a numpy float.\<close>

fun np_mean :: "nat \<times> nat \<Rightarrow> pynum" where
  "np_mean (h, w) = PyFloat ((real h + real w) / 2)"

text \<open>
  \<open>cpi.Image(pixels, mask, parent_image)\<close>: the constructor's arguments. \<open>run\<close> builds
  its output image from the pixels and the parent only.
\<close>

datatype image =
  Image (pixel_data: pixels) (mask_arg: "mask option") (parent_image: "image option")

definition FIT_POLYNOMIAL :: string where "FIT_POLYNOMIAL = ''Fit Polynomial''"
definition MEDIAN_FILTER :: string where "MEDIAN_FILTER = ''Median Filter''"
definition GAUSSIAN_FILTER :: string where "GAUSSIAN_FILTER = ''Gaussian Filter''"
definition SMOOTH_KEEPING_EDGES :: string where "SMOOTH_KEEPING_EDGES = ''Smooth Keeping Edges''"
definition CIRCULAR_AVERAGE_FILTER :: string where
  "CIRCULAR_AVERAGE_FILTER = ''Circular Average Filter''"

text \<open>The settings of \<open>create_settings\<close>, each with the type of its value.\<close>

record smooth =
  image_name :: string
  filtered_image_name :: string
  smoothing_method :: string
  wants_automatic_object_size :: bool
  object_size :: real
  sigma_range :: real

record 's workspace =
  image_set :: 's
  display_pixel_data :: "pixels option"
  display_output_pixels :: "pixels option"

text \<open>
  The functions that \<open>run\<close> calls and that are defined outside \<open>smooth.py\<close>
  (\<open>cellprofiler.cpimage\<close>, \<open>cellprofiler.cpmath\<close>, \<open>scipy.ndimage\<close>) are parameters of
  the model, in the argument order of their call sites. Each may raise. The image set
  is of an arbitrary type \<open>'s\<close>; \<open>add\<close> returns the image set after the call.
\<close>

record 's env =
  get_image :: "'s \<Rightarrow> string \<Rightarrow> bool \<Rightarrow> error + image"
  add :: "'s \<Rightarrow> string \<Rightarrow> image \<Rightarrow> error + 's"
  image_mask :: "image \<Rightarrow> mask"
  gaussian_filter :: "pixels \<Rightarrow> pynum \<Rightarrow> string \<Rightarrow> pynum \<Rightarrow> error + pixels"
  smooth_with_function_and_mask ::
    "pixels \<Rightarrow> (pixels \<Rightarrow> error + pixels) \<Rightarrow> mask \<Rightarrow> error + pixels"
  median_filter :: "pixels \<Rightarrow> mask \<Rightarrow> pynum \<Rightarrow> error + pixels"
  bilateral_filter :: "pixels \<Rightarrow> mask \<Rightarrow> pynum \<Rightarrow> pynum \<Rightarrow> error + pixels"
  fit_polynomial :: "pixels \<Rightarrow> mask \<Rightarrow> error + pixels"
  circular_average_filter :: "pixels \<Rightarrow> pynum \<Rightarrow> mask \<Rightarrow> error + pixels"

subsection \<open>\<open>Smooth.run\<close>\<close>

text \<open>Lines 141-144: the artifact diameter, from the settings and \<open>pixel_data\<close> (here \<open>pd\<close>).\<close>

definition resolve_object_size :: "smooth \<Rightarrow> pixels \<Rightarrow> error + pynum" where
  "resolve_object_size self pd =
     (if wants_automatic_object_size self
      then bind_result (py_div (np_mean (shape pd)) (PyInt 40))
             (\<lambda>q. Inr (py_min (PyInt 30) (py_max (PyInt 1) q)))
      else Inr (py_float (object_size self)))"

text \<open>The expression \<open>object_size/2+1\<close> of lines 154 and 162.\<close>

definition filter_radius :: "pynum \<Rightarrow> error + pynum" where
  "filter_radius object_size' =
     bind_result (py_div object_size' (PyInt 2)) (\<lambda>h. Inr (py_add h (PyInt 1)))"

text \<open>Lines 145-165: \<open>sigma\<close> and the choice of the filter, giving \<open>output_pixels\<close>.
  The local variables \<open>image\<close> and \<open>object_size\<close> are written \<open>image'\<close> and
  \<open>object_size'\<close>.\<close>

definition output_pixels :: "'s env \<Rightarrow> smooth \<Rightarrow> image \<Rightarrow> pynum \<Rightarrow> error + pixels" where
  "output_pixels env self image' object_size' =
     bind_result (py_div object_size' (PyFloat 2.35)) (\<lambda>sigma.
       if smoothing_method self = GAUSSIAN_FILTER then
         smooth_with_function_and_mask env (pixel_data image')
           (\<lambda>im. gaussian_filter env im sigma ''constant'' (PyInt 0))
           (image_mask env image')
       else if smoothing_method self = MEDIAN_FILTER then
         bind_result (filter_radius object_size') (\<lambda>radius.
           median_filter env (pixel_data image') (image_mask env image') radius)
       else if smoothing_method self = SMOOTH_KEEPING_EDGES then
         bilateral_filter env (pixel_data image') (image_mask env image')
           sigma (py_float (sigma_range self))
       else if smoothing_method self = FIT_POLYNOMIAL then
         fit_polynomial env (pixel_data image') (image_mask env image')
       else if smoothing_method self = CIRCULAR_AVERAGE_FILTER then
         bind_result (filter_radius object_size') (\<lambda>radius.
           circular_average_filter env (pixel_data image') radius (image_mask env image'))
       else Inl (ValueError (''Unsupported smoothing method: '' @ smoothing_method self)))"

text \<open>Lines 137-170. An exception leaves the workspace as it was.\<close>

definition run :: "'s env \<Rightarrow> smooth \<Rightarrow> 's workspace \<Rightarrow> error + 's workspace" where
  "run env self workspace =
     bind_result (get_image env (image_set workspace) (image_name self) True) (\<lambda>image'.
     bind_result (resolve_object_size self (pixel_data image')) (\<lambda>object_size'.
     bind_result (output_pixels env self image' object_size') (\<lambda>out.
     bind_result (add env (image_set workspace) (filtered_image_name self)
                    (Image out None (Some image'))) (\<lambda>image_set'.
     Inr (workspace\<lparr>image_set := image_set',
                     display_pixel_data := Some (pixel_data image'),
                     display_output_pixels := Some out\<rparr>)))))"

subsection \<open>The contract of the filters\<close>

text \<open>
  Modelled from the spec: the filters themselves (\<open>cellprofiler.cpmath.smooth\<close>,
  \<open>cellprofiler.cpmath.filter\<close>, \<open>scipy.ndimage\<close>) are missing from the sources. The spec
  gives their contract: the selected filter "produces an output array of identical
  shape". For \<open>smooth_with_function_and_mask\<close> this is under the condition that the
  function it is given keeps the shape.
\<close>

definition filters_preserve_shape :: "'s env \<Rightarrow> bool" where
  "filters_preserve_shape env \<longleftrightarrow>
     (\<forall>p sigma mode cval out.
        gaussian_filter env p sigma mode cval = Inr out \<longrightarrow> shape out = shape p) \<and>
     (\<forall>p fn m out.
        (\<forall>q r. fn q = Inr r \<longrightarrow> shape r = shape q) \<longrightarrow>
        smooth_with_function_and_mask env p fn m = Inr out \<longrightarrow> shape out = shape p) \<and>
     (\<forall>p m radius out. median_filter env p m radius = Inr out \<longrightarrow> shape out = shape p) \<and>
     (\<forall>p m sigma sr out.
        bilateral_filter env p m sigma sr = Inr out \<longrightarrow> shape out = shape p) \<and>
     (\<forall>p m out. fit_polynomial env p m = Inr out \<longrightarrow> shape out = shape p) \<and>
     (\<forall>p radius m out.
        circular_average_filter env p radius m = Inr out \<longrightarrow> shape out = shape p)"

subsection \<open>A concrete environment\<close>

text \<open>
  An environment for closed instances: the image set is an association list from names
  to images, \<open>get_image\<close> looks a name up, \<open>add\<close> appends an entry, an image's mask is
  its mask argument or else all true, and every filter returns the array it is given.
\<close>

fun lookup_image :: "(string \<times> image) list \<Rightarrow> string \<Rightarrow> bool \<Rightarrow> error + image" where
  "lookup_image [] name g = Inl (Raised name)"
| "lookup_image ((k, v) # rest) name g = (if k = name then Inr v else lookup_image rest name g)"

definition all_true :: "pixels \<Rightarrow> mask" where
  "all_true p = \<lparr>shape = shape p, flat = map (\<lambda>_. True) (flat p)\<rparr>"

definition list_env :: "(string \<times> image) list env" where
  "list_env = \<lparr>
     get_image = lookup_image,
     add = (\<lambda>s name img. Inr (s @ [(name, img)])),
     image_mask = (\<lambda>img. case mask_arg img of Some m \<Rightarrow> m | None \<Rightarrow> all_true (pixel_data img)),
     gaussian_filter = (\<lambda>p sigma mode cval. Inr p),
     smooth_with_function_and_mask = (\<lambda>p fn m. fn p),
     median_filter = (\<lambda>p m radius. Inr p),
     bilateral_filter = (\<lambda>p m sigma sr. Inr p),
     fit_polynomial = (\<lambda>p m. Inr p),
     circular_average_filter = (\<lambda>p radius m. Inr p)\<rparr>"

definition small_pixels :: pixels where
  "small_pixels = \<lparr>shape = (3, 3), flat = [0, 1, 0, 1, 1, 1, 0, 1, 0]\<rparr>"

definition small_image :: image where
  "small_image = Image small_pixels None None"

definition small_workspace :: "(string \<times> image) list workspace" where
  "small_workspace = \<lparr>image_set = [(''DNA'', small_image)],
     display_pixel_data = None, display_output_pixels = None\<rparr>"

text \<open>The default values of the settings, on the input image \<open>DNA\<close>.\<close>

definition default_settings :: smooth where
  "default_settings = \<lparr>image_name = ''DNA'', filtered_image_name = ''FilteredImage'',
     smoothing_method = FIT_POLYNOMIAL, wants_automatic_object_size = True,
     object_size = 16, sigma_range = 0.1\<rparr>"

text \<open>A grayscale image of 10 by 10 pixels.\<close>

definition tiny_pixels :: pixels where
  "tiny_pixels = \<lparr>shape = (10, 10), flat = replicate 100 0\<rparr>"

text \<open>Smooth Keeping Edges with a diameter of 47 pixels entered by hand.\<close>

definition manual_bilateral :: smooth where
  "manual_bilateral = default_settings\<lparr>smoothing_method := SMOOTH_KEEPING_EDGES,
     wants_automatic_object_size := False, object_size := 47\<rparr>"

subsection \<open>The image set and the mask of an image\<close>



subsection \<open>A concrete environment with a keyed image set\<close>







section \<open>Properties\<close>

subsection \<open>Arithmetic of the sizes\<close>

lemma bind_result_Inr [simp]: "bind_result (Inr x) f = f x"
  by (simp add: bind_result_def)

lemma bind_result_Inl [simp]: "bind_result (Inl e) f = Inl e"
  by (simp add: bind_result_def)

lemma py_div_float [simp]:
  "x \<noteq> 0 \<Longrightarrow> py_div a (PyFloat x) = Inr (PyFloat (to_real a / x))"
  by (cases a) simp_all

lemma to_real_py_max [simp]: "to_real (py_max a b) = max (to_real a) (to_real b)"
  by (simp add: py_max_def max_def)

lemma to_real_py_min [simp]: "to_real (py_min a b) = min (to_real a) (to_real b)"
  by (simp add: py_min_def min_def)

lemma automatic_object_size:
  "wants_automatic_object_size self \<Longrightarrow>
   resolve_object_size self pd =
     Inr (py_min (PyInt 30) (py_max (PyInt 1)
            (PyFloat ((real (fst (shape pd)) + real (snd (shape pd))) / 2 / 40))))"
  by (cases "shape pd") (simp add: resolve_object_size_def)

lemma manual_object_size:
  "\<not> wants_automatic_object_size self \<Longrightarrow>
   resolve_object_size self pd = Inr (PyFloat (object_size self))"
  by (simp add: resolve_object_size_def py_float_def)

lemma resolve_object_size_total: "\<exists>v. resolve_object_size self pd = Inr v"
  by (cases "wants_automatic_object_size self")
     (simp_all add: automatic_object_size manual_object_size)

lemma filter_radius_value:
  "filter_radius v =
     Inr (case v of PyInt n \<Rightarrow> PyInt (n div 2 + 1) | PyFloat x \<Rightarrow> PyFloat (x / 2 + 1))"
  by (cases v) (simp_all add: filter_radius_def)

lemmas method_tags = GAUSSIAN_FILTER_def MEDIAN_FILTER_def SMOOTH_KEEPING_EDGES_def
  FIT_POLYNOMIAL_def CIRCULAR_AVERAGE_FILTER_def

lemma method_tags_distinct:
  "distinct [GAUSSIAN_FILTER, MEDIAN_FILTER, SMOOTH_KEEPING_EDGES, FIT_POLYNOMIAL,
             CIRCULAR_AVERAGE_FILTER]"
  by (simp add: method_tags)

subsection \<open>Consequences of the filters' contract\<close>

lemma preserve_gaussian:
  assumes "filters_preserve_shape env" and "gaussian_filter env p sigma mode cval = Inr out"
  shows "shape out = shape p"
proof -
  from assms(1) have "\<forall>p sigma mode cval out.
      gaussian_filter env p sigma mode cval = Inr out \<longrightarrow> shape out = shape p"
    unfolding filters_preserve_shape_def by (elim conjE)
  with assms(2) show ?thesis by blast
qed

lemma preserve_smooth:
  assumes "filters_preserve_shape env"
    and fn: "\<And>q r. fn q = Inr r \<Longrightarrow> shape r = shape q"
    and out: "smooth_with_function_and_mask env p fn m = Inr out"
  shows "shape out = shape p"
proof -
  from assms(1) have contract: "\<forall>p fn m out.
        (\<forall>q r. fn q = Inr r \<longrightarrow> shape r = shape q) \<longrightarrow>
        smooth_with_function_and_mask env p fn m = Inr out \<longrightarrow> shape out = shape p"
    unfolding filters_preserve_shape_def by (elim conjE)
  show ?thesis by (rule contract [rule_format, OF fn out])
qed

lemma preserve_median:
  assumes "filters_preserve_shape env" and "median_filter env p m radius = Inr out"
  shows "shape out = shape p"
proof -
  from assms(1) have "\<forall>p m radius out.
      median_filter env p m radius = Inr out \<longrightarrow> shape out = shape p"
    unfolding filters_preserve_shape_def by (elim conjE)
  with assms(2) show ?thesis by blast
qed

lemma preserve_bilateral:
  assumes "filters_preserve_shape env" and "bilateral_filter env p m sigma sr = Inr out"
  shows "shape out = shape p"
proof -
  from assms(1) have "\<forall>p m sigma sr out.
      bilateral_filter env p m sigma sr = Inr out \<longrightarrow> shape out = shape p"
    unfolding filters_preserve_shape_def by (elim conjE)
  with assms(2) show ?thesis by blast
qed

lemma preserve_fit:
  assumes "filters_preserve_shape env" and "fit_polynomial env p m = Inr out"
  shows "shape out = shape p"
proof -
  from assms(1) have "\<forall>p m out. fit_polynomial env p m = Inr out \<longrightarrow> shape out = shape p"
    unfolding filters_preserve_shape_def by (elim conjE)
  with assms(2) show ?thesis by blast
qed

lemma preserve_circular:
  assumes "filters_preserve_shape env" and "circular_average_filter env p radius m = Inr out"
  shows "shape out = shape p"
proof -
  from assms(1) have "\<forall>p radius m out.
      circular_average_filter env p radius m = Inr out \<longrightarrow> shape out = shape p"
    unfolding filters_preserve_shape_def by (elim conjE)
  with assms(2) show ?thesis by blast
qed

subsection \<open>The steps of a successful run\<close>




subsection \<open>The artifact diameter\<close>

text \<open>
  C2. With automatic sizing, for an image of shape \<open>(H, W)\<close> the artifact diameter is
  resolved, its value is \<open>min(30, max(1, mean(H, W) / 40))\<close>, and it lies in the closed
  interval from 1 to 30.
\<close>

theorem automatic_object_size_clamped:
  assumes "wants_automatic_object_size self" and "shape pd = (h, w)"
  shows "\<exists>v. resolve_object_size self pd = Inr v
           \<and> to_real v = min 30 (max 1 ((real h + real w) / 2 / 40))
           \<and> 1 \<le> to_real v \<and> to_real v \<le> 30"
  using assms by (simp add: automatic_object_size)

theorem automatic_object_size_clamped_witness:
  "wants_automatic_object_size default_settings \<and> shape small_pixels = (3, 3)
   \<and> (\<exists>v. resolve_object_size default_settings small_pixels = Inr v
           \<and> to_real v = min 30 (max 1 ((real 3 + real 3) / 2 / 40))
           \<and> 1 \<le> to_real v \<and> to_real v \<le> 30)"
  using automatic_object_size_clamped [of default_settings small_pixels 3 3]
  by (simp add: default_settings_def small_pixels_def)


text \<open>
  C3, as stated: in manual mode a diameter of zero or less makes the call fail with a
  configuration error, for every method. The code has no such check. With the diameter
  \<open>-1\<close> entered by hand and the method Fit Polynomial, \<open>run\<close> succeeds and stores the
  output image.
\<close>

theorem nonpositive_diameter_accepted:
  "run list_env (default_settings\<lparr>wants_automatic_object_size := False, object_size := - 1\<rparr>)
     small_workspace
   = Inr \<lparr>image_set = [(''DNA'', small_image),
                       (''FilteredImage'', Image small_pixels None (Some small_image))],
          display_pixel_data = Some small_pixels,
          display_output_pixels = Some small_pixels\<rparr>"
  by (simp add: run_def output_pixels_def resolve_object_size_def py_float_def
        default_settings_def list_env_def small_workspace_def small_image_def method_tags)

text \<open>
  C3, amended: in manual mode a diameter of zero or less is not validated. The resolved
  diameter is the value entered, and \<open>run\<close> raises no error of its own on its account:
  when \<open>get_image\<close>, the selected filter and \<open>add\<close> succeed, the call succeeds.
\<close>

theorem manual_diameter_not_validated:
  assumes "\<not> wants_automatic_object_size self" and "object_size self \<le> 0"
  shows "resolve_object_size self pd = Inr (PyFloat (object_size self))
         \<and> (get_image env (image_set ws) (image_name self) True = Inr img \<longrightarrow>
            output_pixels env self img (PyFloat (object_size self)) = Inr out \<longrightarrow>
            add env (image_set ws) (filtered_image_name self) (Image out None (Some img)) = Inr s \<longrightarrow>
            run env self ws =
              Inr (ws\<lparr>image_set := s, display_pixel_data := Some (pixel_data img),
                       display_output_pixels := Some out\<rparr>))"
  using assms by (simp add: run_def manual_object_size)

theorem manual_diameter_not_validated_witness:
  "\<not> wants_automatic_object_size
        (default_settings\<lparr>wants_automatic_object_size := False, object_size := - 1\<rparr>)
   \<and> object_size (default_settings\<lparr>wants_automatic_object_size := False, object_size := - 1\<rparr>) \<le> 0
   \<and> resolve_object_size
        (default_settings\<lparr>wants_automatic_object_size := False, object_size := - 1\<rparr>) small_pixels
       = Inr (PyFloat (- 1))
   \<and> run list_env (default_settings\<lparr>wants_automatic_object_size := False, object_size := - 1\<rparr>)
         small_workspace
       = Inr (small_workspace\<lparr>
           image_set := [(''DNA'', small_image),
                         (''FilteredImage'', Image small_pixels None (Some small_image))],
           display_pixel_data := Some small_pixels,
           display_output_pixels := Some small_pixels\<rparr>)"
  using manual_diameter_not_validated
          [where self = "default_settings\<lparr>wants_automatic_object_size := False, object_size := - 1\<rparr>"
             and pd = small_pixels and env = list_env and ws = small_workspace
             and img = small_image and out = small_pixels
             and s = "[(''DNA'', small_image),
                       (''FilteredImage'', Image small_pixels None (Some small_image))]"]
  by (simp add: output_pixels_def default_settings_def list_env_def small_workspace_def
        small_image_def method_tags)

subsection \<open>The derived parameters\<close>

text \<open>
  C7. The standard deviation handed to the Gaussian filter and to the bilateral filter
  is the resolved artifact diameter divided by 2.35, whether the diameter was computed
  or entered.
\<close>

theorem sigma_is_object_size_over_2_35:
  assumes "resolve_object_size self (pixel_data img) = Inr v"
  shows "(smoothing_method self = GAUSSIAN_FILTER \<longrightarrow>
            output_pixels env self img v =
              smooth_with_function_and_mask env (pixel_data img)
                (\<lambda>im. gaussian_filter env im (PyFloat (to_real v / 2.35)) ''constant'' (PyInt 0))
                (image_mask env img))
         \<and> (smoothing_method self = SMOOTH_KEEPING_EDGES \<longrightarrow>
            output_pixels env self img v =
              bilateral_filter env (pixel_data img) (image_mask env img)
                (PyFloat (to_real v / 2.35)) (PyFloat (sigma_range self)))"
  by (simp add: output_pixels_def py_float_def method_tags)

theorem sigma_is_object_size_over_2_35_witness:
  "resolve_object_size (default_settings\<lparr>smoothing_method := GAUSSIAN_FILTER\<rparr>)
      (pixel_data small_image) = Inr (PyInt 1)
   \<and> smoothing_method (default_settings\<lparr>smoothing_method := GAUSSIAN_FILTER\<rparr>) = GAUSSIAN_FILTER
   \<and> output_pixels list_env (default_settings\<lparr>smoothing_method := GAUSSIAN_FILTER\<rparr>) small_image
         (PyInt 1)
       = smooth_with_function_and_mask list_env (pixel_data small_image)
           (\<lambda>im. gaussian_filter list_env im (PyFloat (20 / 47)) ''constant'' (PyInt 0))
           (image_mask list_env small_image)
   \<and> resolve_object_size manual_bilateral (pixel_data small_image) = Inr (PyFloat 47)
   \<and> smoothing_method manual_bilateral = SMOOTH_KEEPING_EDGES
   \<and> output_pixels list_env manual_bilateral small_image (PyFloat 47)
       = bilateral_filter list_env (pixel_data small_image) (image_mask list_env small_image)
           (PyFloat 20) (PyFloat (sigma_range manual_bilateral))"
proof -
  have g: "resolve_object_size (default_settings\<lparr>smoothing_method := GAUSSIAN_FILTER\<rparr>)
      (pixel_data small_image) = Inr (PyInt 1)"
    by (simp add: resolve_object_size_def default_settings_def small_image_def small_pixels_def
          py_min_def py_max_def)
  have b: "resolve_object_size manual_bilateral (pixel_data small_image) = Inr (PyFloat 47)"
    by (simp add: resolve_object_size_def manual_bilateral_def default_settings_def py_float_def)
  have mb: "smoothing_method manual_bilateral = SMOOTH_KEEPING_EDGES"
    by (simp add: manual_bilateral_def)
  show ?thesis
    using sigma_is_object_size_over_2_35 [OF g, where env = list_env]
          sigma_is_object_size_over_2_35 [OF b, where env = list_env] g b mb
    by simp
qed

text \<open>
  C6. The claim is that the radius handed to the median filter and to the circular
  average filter is the resolved diameter divided by two, plus one. On an image of 10
  by 10 pixels with automatic sizing, \<open>max(1, 0.25)\<close> is the int \<open>1\<close>, \<open>1/2\<close> is
  \<open>0\<close>, and both filters are called with the radius \<open>1\<close>, where half the diameter plus
  one is \<open>1.5\<close>.
\<close>

theorem radius_on_small_image:
  "resolve_object_size (default_settings\<lparr>smoothing_method := MEDIAN_FILTER\<rparr>) tiny_pixels
     = Inr (PyInt 1)
   \<and> output_pixels env (default_settings\<lparr>smoothing_method := MEDIAN_FILTER\<rparr>)
        (Image tiny_pixels None None) (PyInt 1)
     = median_filter env tiny_pixels (image_mask env (Image tiny_pixels None None)) (PyInt 1)
   \<and> output_pixels env (default_settings\<lparr>smoothing_method := CIRCULAR_AVERAGE_FILTER\<rparr>)
        (Image tiny_pixels None None) (PyInt 1)
     = circular_average_filter env tiny_pixels (PyInt 1) (image_mask env (Image tiny_pixels None None))
   \<and> to_real (PyInt 1) \<noteq> to_real (PyInt 1) / 2 + 1"
  by (simp add: resolve_object_size_def output_pixels_def filter_radius_def py_min_def py_max_def
        default_settings_def tiny_pixels_def method_tags)

subsection \<open>The choice of the filter\<close>

text \<open>
  C1. For each of the five method tags the dispatcher calls the filter of that tag with
  the derived parameters: Gaussian Filter smooths \<open>(pixel_data, mask)\<close> with a Gaussian
  of standard deviation \<open>sigma\<close>; Median Filter calls \<open>median_filter\<close> with
  \<open>(pixel_data, mask, radius)\<close>; Smooth Keeping Edges calls \<open>bilateral_filter\<close> with
  \<open>(pixel_data, mask, sigma, sigma_range)\<close>; Fit Polynomial calls \<open>fit_polynomial\<close> with
  \<open>(pixel_data, mask)\<close> only; Circular Average Filter calls \<open>circular_average_filter\<close>
  with \<open>(pixel_data, radius, mask)\<close>. The radius is the value of \<open>object_size/2+1\<close>.
\<close>

theorem dispatch_invokes_selected_filter:
  "output_pixels env (self\<lparr>smoothing_method := GAUSSIAN_FILTER\<rparr>) img v =
     smooth_with_function_and_mask env (pixel_data img)
       (\<lambda>im. gaussian_filter env im (PyFloat (to_real v / 2.35)) ''constant'' (PyInt 0))
       (image_mask env img)
   \<and> output_pixels env (self\<lparr>smoothing_method := MEDIAN_FILTER\<rparr>) img v =
     median_filter env (pixel_data img) (image_mask env img)
       (case v of PyInt n \<Rightarrow> PyInt (n div 2 + 1) | PyFloat x \<Rightarrow> PyFloat (x / 2 + 1))
   \<and> output_pixels env (self\<lparr>smoothing_method := SMOOTH_KEEPING_EDGES\<rparr>) img v =
     bilateral_filter env (pixel_data img) (image_mask env img)
       (PyFloat (to_real v / 2.35)) (PyFloat (sigma_range self))
   \<and> output_pixels env (self\<lparr>smoothing_method := FIT_POLYNOMIAL\<rparr>) img v =
     fit_polynomial env (pixel_data img) (image_mask env img)
   \<and> output_pixels env (self\<lparr>smoothing_method := CIRCULAR_AVERAGE_FILTER\<rparr>) img v =
     circular_average_filter env (pixel_data img)
       (case v of PyInt n \<Rightarrow> PyInt (n div 2 + 1) | PyFloat x \<Rightarrow> PyFloat (x / 2 + 1))
       (image_mask env img)"
  by (simp add: output_pixels_def filter_radius_value py_float_def method_tags)

text \<open>
  C4. For a method tag outside the five, the dispatcher raises a \<open>ValueError\<close> whose
  message ends with the tag, whatever the filters are: none of them is called. When the
  input image is found, this is the outcome of \<open>run\<close>.
\<close>

theorem unsupported_method_fails:
  assumes "smoothing_method self \<notin> {GAUSSIAN_FILTER, MEDIAN_FILTER, SMOOTH_KEEPING_EDGES,
             FIT_POLYNOMIAL, CIRCULAR_AVERAGE_FILTER}"
  shows "output_pixels env self img v =
           Inl (ValueError (''Unsupported smoothing method: '' @ smoothing_method self))
         \<and> (get_image env (image_set ws) (image_name self) True = Inr img \<longrightarrow>
            run env self ws =
              Inl (ValueError (''Unsupported smoothing method: '' @ smoothing_method self)))"
proof -
  have unsupported: "output_pixels env self img v =
           Inl (ValueError (''Unsupported smoothing method: '' @ smoothing_method self))" for v
    using assms by (simp add: output_pixels_def)
  obtain s where "resolve_object_size self (pixel_data img) = Inr s"
    using resolve_object_size_total by blast
  then show ?thesis using unsupported by (simp add: run_def)
qed

theorem unsupported_method_fails_witness:
  "smoothing_method (default_settings\<lparr>smoothing_method := ''Sharpen''\<rparr>) \<notin>
      {GAUSSIAN_FILTER, MEDIAN_FILTER, SMOOTH_KEEPING_EDGES, FIT_POLYNOMIAL, CIRCULAR_AVERAGE_FILTER}
   \<and> get_image list_env (image_set small_workspace)
        (image_name (default_settings\<lparr>smoothing_method := ''Sharpen''\<rparr>)) True = Inr small_image
   \<and> output_pixels list_env (default_settings\<lparr>smoothing_method := ''Sharpen''\<rparr>) small_image (PyInt 1)
       = Inl (ValueError ''Unsupported smoothing method: Sharpen'')
   \<and> run list_env (default_settings\<lparr>smoothing_method := ''Sharpen''\<rparr>) small_workspace
       = Inl (ValueError ''Unsupported smoothing method: Sharpen'')"
  using unsupported_method_fails
          [where self = "default_settings\<lparr>smoothing_method := ''Sharpen''\<rparr>"
             and env = list_env and img = small_image and v = "PyInt 1" and ws = small_workspace]
  by (simp add: default_settings_def list_env_def small_workspace_def method_tags)


subsection \<open>Settings that a method does not read\<close>

text \<open>
  C5. The edge intensity difference \<open>sigma_range\<close> is read by Smooth Keeping Edges
  only: for any other method tag, two runs that differ in \<open>sigma_range\<close> alone have the
  same outcome.
\<close>

theorem sigma_range_only_bilateral:
  assumes "smoothing_method self \<noteq> SMOOTH_KEEPING_EDGES"
  shows "run env (self\<lparr>sigma_range := a\<rparr>) ws = run env (self\<lparr>sigma_range := b\<rparr>) ws"
proof -
  have size: "resolve_object_size (self\<lparr>sigma_range := x\<rparr>) pd = resolve_object_size self pd"
    for x pd
    by (simp add: resolve_object_size_def)
  have out: "output_pixels env (self\<lparr>sigma_range := x\<rparr>) img v = output_pixels env self img v"
    for x img v
    using assms by (simp add: output_pixels_def cong: if_cong)
  show ?thesis by (simp add: run_def size out)
qed

theorem sigma_range_only_bilateral_witness:
  "smoothing_method (default_settings\<lparr>smoothing_method := GAUSSIAN_FILTER\<rparr>) \<noteq> SMOOTH_KEEPING_EDGES
   \<and> run list_env (default_settings\<lparr>smoothing_method := GAUSSIAN_FILTER, sigma_range := 0.1\<rparr>)
         small_workspace
     = run list_env (default_settings\<lparr>smoothing_method := GAUSSIAN_FILTER, sigma_range := 0.9\<rparr>)
         small_workspace"
  using sigma_range_only_bilateral
          [where self = "default_settings\<lparr>smoothing_method := GAUSSIAN_FILTER\<rparr>"
             and env = list_env and a = "0.1" and ws = small_workspace and b = "0.9"]
  by (simp add: method_tags)

text \<open>
  C9. With Fit Polynomial the outcome of \<open>run\<close> depends neither on the automatic sizing
  flag nor on the diameter entered: two runs that differ in these two settings alone
  have the same outcome, the fitter being given the pixel data and the mask only.
\<close>

theorem polynomial_fit_ignores_sizing:
  assumes "smoothing_method self = FIT_POLYNOMIAL"
  shows "run env (self\<lparr>wants_automatic_object_size := a, object_size := d\<rparr>) ws
       = run env (self\<lparr>wants_automatic_object_size := a', object_size := d'\<rparr>) ws"
proof -
  have fit: "bind_result
          (resolve_object_size (self\<lparr>wants_automatic_object_size := x, object_size := y\<rparr>) pd)
          (\<lambda>v. bind_result
             (output_pixels env (self\<lparr>wants_automatic_object_size := x, object_size := y\<rparr>) img v) k)
        = bind_result (fit_polynomial env (pixel_data img) (image_mask env img)) k"
    for x y pd img and k :: "pixels \<Rightarrow> error + 's workspace"
  proof -
    obtain s where
      "resolve_object_size (self\<lparr>wants_automatic_object_size := x, object_size := y\<rparr>) pd = Inr s"
      using resolve_object_size_total by blast
    then show ?thesis using assms by (simp add: output_pixels_def method_tags)
  qed
  show ?thesis by (simp add: run_def fit)
qed

theorem polynomial_fit_ignores_sizing_witness:
  "smoothing_method default_settings = FIT_POLYNOMIAL
   \<and> run list_env (default_settings\<lparr>wants_automatic_object_size := True, object_size := 16\<rparr>)
         small_workspace
     = run list_env (default_settings\<lparr>wants_automatic_object_size := False, object_size := 50\<rparr>)
         small_workspace"
  using polynomial_fit_ignores_sizing [where self = default_settings and env = list_env
          and a = True and d = 16 and ws = small_workspace and a' = False and d' = 50]
  by (simp add: default_settings_def)

subsection \<open>The output\<close>

text \<open>
  C8. Shape preservation. Under the contract of the filters, whatever array the
  dispatcher returns has the shape of the input image's pixel data, for each of the five
  methods and any diameter: the dispatcher hands the pixel data to the filter as it is
  and returns the filter's array as it is.
\<close>

theorem output_shape_is_input_shape:
  assumes "filters_preserve_shape env"
    and "output_pixels env self img v = Inr out"
  shows "shape out = shape (pixel_data img)"
proof -
  let ?sigma = "PyFloat (to_real v / 2.35)"
  let ?radius = "case v of PyInt n \<Rightarrow> PyInt (n div 2 + 1) | PyFloat x \<Rightarrow> PyFloat (x / 2 + 1)"
  consider (gaussian) "smoothing_method self = GAUSSIAN_FILTER"
    | (median) "smoothing_method self = MEDIAN_FILTER"
    | (bilateral) "smoothing_method self = SMOOTH_KEEPING_EDGES"
    | (fit) "smoothing_method self = FIT_POLYNOMIAL"
    | (circular) "smoothing_method self = CIRCULAR_AVERAGE_FILTER"
    | (unsupported) "smoothing_method self \<notin> {GAUSSIAN_FILTER, MEDIAN_FILTER,
        SMOOTH_KEEPING_EDGES, FIT_POLYNOMIAL, CIRCULAR_AVERAGE_FILTER}"
    by auto
  then show ?thesis
  proof cases
    case gaussian
    with assms(2) have "smooth_with_function_and_mask env (pixel_data img)
        (\<lambda>im. gaussian_filter env im ?sigma ''constant'' (PyInt 0)) (image_mask env img) = Inr out"
      by (simp add: output_pixels_def)
    then show ?thesis
      by (rule preserve_smooth [OF assms(1), rotated]) (rule preserve_gaussian [OF assms(1)])
  next
    case median
    with assms(2) have "median_filter env (pixel_data img) (image_mask env img) ?radius = Inr out"
      by (simp add: output_pixels_def filter_radius_value method_tags)
    then show ?thesis by (rule preserve_median [OF assms(1)])
  next
    case bilateral
    with assms(2) have "bilateral_filter env (pixel_data img) (image_mask env img)
        ?sigma (py_float (sigma_range self)) = Inr out"
      by (simp add: output_pixels_def method_tags)
    then show ?thesis by (rule preserve_bilateral [OF assms(1)])
  next
    case fit
    with assms(2) have "fit_polynomial env (pixel_data img) (image_mask env img) = Inr out"
      by (simp add: output_pixels_def method_tags)
    then show ?thesis by (rule preserve_fit [OF assms(1)])
  next
    case circular
    with assms(2) have "circular_average_filter env (pixel_data img) ?radius
        (image_mask env img) = Inr out"
      by (simp add: output_pixels_def filter_radius_value method_tags)
    then show ?thesis by (rule preserve_circular [OF assms(1)])
  next
    case unsupported
    with assms(2) show ?thesis
      by (simp add: output_pixels_def)
  qed
qed

theorem output_shape_is_input_shape_witness:
  "filters_preserve_shape list_env
   \<and> output_pixels list_env (default_settings\<lparr>smoothing_method := GAUSSIAN_FILTER\<rparr>)
        small_image (PyInt 1) = Inr small_pixels
   \<and> shape small_pixels = shape (pixel_data small_image)"
proof -
  have contract: "filters_preserve_shape list_env"
    by (simp add: filters_preserve_shape_def list_env_def)
  have out: "output_pixels list_env (default_settings\<lparr>smoothing_method := GAUSSIAN_FILTER\<rparr>)
        small_image (PyInt 1) = Inr small_pixels"
    by (simp add: output_pixels_def list_env_def small_image_def)
  from output_shape_is_input_shape [OF contract out] contract out show ?thesis by simp
qed




end
